theory Spec2Isabelle
  imports Main "HOL-Library.AList"
begin

section \<open>The resilient request client of the frontend (\<open>api.ts\<close>, \<open>services.ts\<close>)\<close>

text \<open>
  The development embeds the retrying HTTP client of the frontend: the retry
  configuration and its default retry condition, the loop \<open>axiosRetry\<close>, the
  class \<open>ApiClient\<close> with its five operations, the error normaliser
  \<open>handleApiError\<close>, the health probe \<open>checkApiHealth\<close> and the service
  wrappers. The axios instance \<open>apiClient\<close> is the boundary of the model: what
  \<open>apiClient.request\<close> answers is a parameter (the transport), and every call
  to it and every \<open>sleep\<close> is recorded in an explicit world state. The two
  interceptors of the instance only log and pass the response or the error on
  unchanged; they are part of the transport.
\<close>

subsection \<open>JavaScript values\<close>

text \<open>
  Response bodies and request payloads have the TypeScript type \<open>any\<close>. They are
  modelled as JSON-like values, with \<open>undefined\<close> as a value of its own.
  Numbers are integers here (no fractions, no NaN).
\<close>

datatype jsval =
    JUndefined
  | JNull
  | JBool bool
  | JNum int
  | JStr string
  | JArr "jsval list"
  | JObj "(string \<times> jsval) list"

text \<open>JavaScript's truthiness, as used by \<open>||\<close> and \<open>!\<close>.\<close>

fun truthy :: "jsval \<Rightarrow> bool" where
  "truthy JUndefined = False"
| "truthy JNull = False"
| "truthy (JBool b) = b"
| "truthy (JNum n) = (n \<noteq> 0)"
| "truthy (JStr s) = (s \<noteq> [])"
| "truthy (JArr xs) = True"
| "truthy (JObj kvs) = True"

text \<open>\<open>a || b\<close>: the first operand when it is truthy, the second otherwise.\<close>

definition js_or :: "jsval \<Rightarrow> jsval \<Rightarrow> jsval" where
  "js_or a b = (if truthy a then a else b)"

text \<open>
  \<open>responseData?.message\<close>: \<open>undefined\<close> on \<open>null\<close> and \<open>undefined\<close> (optional
  chaining), the property of an object when it has one, and \<open>undefined\<close> on
  every other value (primitives and arrays carry no such property).
\<close>

fun message_of :: "jsval \<Rightarrow> jsval" where
  "message_of (JObj kvs) = (case map_of kvs ''message'' of None \<Rightarrow> JUndefined | Some v \<Rightarrow> v)"
| "message_of v = JUndefined"

subsection \<open>Requests, responses and failures\<close>

datatype form_entry = FormText string | FormFile string

datatype body = JsonBody jsval | FormData "(string \<times> form_entry) list"

text \<open>
  \<open>AxiosRequestConfig\<close>: the fields the client sets, and \<open>timeout\<close> standing for
  the caller's other overrides. An absent key is \<open>None\<close>. The headers are an
  association list in insertion order, as the keys of a JavaScript object are.
\<close>

record AxiosRequestConfig =
  "method" :: "string option"
  url :: "string option"
  data :: "body option"
  headers :: "(string \<times> string) list option"
  timeout :: "int option"

record AxiosResponse =
  resp_status :: int
  resp_data :: jsval

text \<open>
  A value for which \<open>axios.isAxiosError\<close> holds: whether it is an instance of
  \<open>Error\<close> (an object that only carries the flag \<open>isAxiosError\<close> is not), and its
  \<open>message\<close>, \<open>code\<close>, \<open>response\<close> and \<open>request\<close> (only whether a request object
  is attached matters to the code). The message is \<open>None\<close> when the property is
  \<open>undefined\<close>, as it is after \<open>new AxiosError()\<close> with no argument.
\<close>

record AxiosError =
  ae_isError :: bool
  ae_message :: "string option"
  ae_code :: "string option"
  ae_response :: "AxiosResponse option"
  ae_request :: bool

text \<open>Reading \<open>error.message\<close> of such a value.\<close>

definition error_message :: "AxiosError \<Rightarrow> jsval" where
  "error_message e = (case ae_message e of None \<Rightarrow> JUndefined | Some m \<Rightarrow> JStr m)"

text \<open>
  What a \<open>catch\<close> clause can receive (TypeScript's \<open>unknown\<close>): an axios error
  (\<open>axios.isAxiosError\<close> holds), another instance of \<open>Error\<close> with its message (a
  string, as \<open>new Error(...)\<close> makes it), or any other value. A thrown value of
  the third kind is taken to carry no \<open>response\<close> and no \<open>code\<close> property.
\<close>

datatype thrown =
    AxiosErr AxiosError
  | PlainError string
  | NonError jsval

text \<open>
  Reading a property of \<open>null\<close> or \<open>undefined\<close> raises a \<open>TypeError\<close>; the text of
  its message belongs to the JavaScript engine.
\<close>

definition TypeError_nullish :: thrown where
  "TypeError_nullish = PlainError ''Cannot read properties of null or undefined''"

subsection \<open>The retry configuration\<close>

text \<open>
  A retry condition is a JavaScript function of the caught value: it answers a
  boolean or raises. \<open>retries\<close> and \<open>retryDelay\<close> are numbers, modelled as
  integers; \<open>retryCondition\<close> is optional.
\<close>

type_synonym retry_condition = "thrown \<Rightarrow> thrown + bool"

record RetryConfig =
  retries :: int
  retryDelay :: int
  retryCondition :: "retry_condition option"

text \<open>
  The default condition:
  \<^verbatim>\<open>!error.response || error.code === 'ECONNABORTED' ||
  error.code === 'NETWORK_ERROR' ||
  (error.response.status >= 500 && error.response.status < 600)\<close>.
  The caught value is only cast to \<open>AxiosError\<close>, so the condition reads the
  properties of whatever was thrown.
\<close>

fun default_retryCondition :: retry_condition where
  "default_retryCondition (AxiosErr e) =
     Inr (case ae_response e of
            None \<Rightarrow> True
          | Some r \<Rightarrow>
              ae_code e = Some ''ECONNABORTED'' \<or>
              ae_code e = Some ''NETWORK_ERROR'' \<or>
              (500 \<le> resp_status r \<and> resp_status r < 600))"
| "default_retryCondition (PlainError m) = Inr True"
| "default_retryCondition (NonError v) =
     (if v = JUndefined \<or> v = JNull then Inl TypeError_nullish else Inr True)"

definition DEFAULT_RETRY_CONFIG :: RetryConfig where
  "DEFAULT_RETRY_CONFIG =
     \<lparr>retries = 3, retryDelay = 1000, retryCondition = Some default_retryCondition\<rparr>"

subsection \<open>The world: the transport and the clock\<close>

text \<open>
  The transport answers the \<open>i\<close>-th invocation of \<open>apiClient.request\<close> (counted
  from \<open>0\<close> over the whole run) for a given request: it rejects (\<open>Inl\<close>) or
  resolves with a response (\<open>Inr\<close>). The world records the dispatched requests
  and the delays passed to \<open>sleep\<close>, in order.
\<close>

type_synonym transport = "nat \<Rightarrow> AxiosRequestConfig \<Rightarrow> thrown + AxiosResponse"

record world =
  calls :: "AxiosRequestConfig list"
  sleeps :: "int list"

definition apiClient_request ::
  "transport \<Rightarrow> AxiosRequestConfig \<Rightarrow> world \<Rightarrow> (thrown + AxiosResponse) \<times> world" where
  "apiClient_request tr config w = (tr (length (calls w)) config, w\<lparr>calls := calls w @ [config]\<rparr>)"

definition sleep :: "int \<Rightarrow> world \<Rightarrow> world" where
  "sleep ms w = w\<lparr>sleeps := sleeps w @ [ms]\<rparr>"

subsection \<open>\<open>axiosRetry\<close>\<close>

text \<open>
  The \<open>for\<close> loop of \<open>axiosRetry\<close>, from a given value of \<open>attempt\<close>. \<open>lastError\<close>
  is \<open>None\<close> while the variable is unassigned; the \<open>throw\<close> after the loop
  raises its value (\<open>undefined\<close> when it was never assigned). The condition
  \<open>attempt === retries || !retryCondition?.(lastError)\<close> is evaluated left to
  right: on the last attempt the retry condition is not called, and an absent
  retry condition stops the loop. \<open>Math.pow(2, attempt)\<close> is the exact power.
\<close>

function axiosRetry_loop ::
  "transport \<Rightarrow> AxiosRequestConfig \<Rightarrow> RetryConfig \<Rightarrow> nat \<Rightarrow> thrown option \<Rightarrow> world
     \<Rightarrow> (thrown + AxiosResponse) \<times> world" where
  "axiosRetry_loop tr config rc attempt lastError w =
     (if int attempt \<le> retries rc then
        (case apiClient_request tr config w of
           (Inr resp, w1) \<Rightarrow> (Inr resp, w1)
         | (Inl error, w1) \<Rightarrow>
             if int attempt = retries rc then (Inl error, w1)
             else
               (case retryCondition rc of
                  None \<Rightarrow> (Inl error, w1)
                | Some cond \<Rightarrow>
                    (case cond error of
                       Inl raised \<Rightarrow> (Inl raised, w1)
                     | Inr b \<Rightarrow>
                         if \<not> b then (Inl error, w1)
                         else axiosRetry_loop tr config rc (attempt + 1) (Some error)
                                (sleep (retryDelay rc * 2 ^ attempt) w1))))
      else (Inl (case lastError of None \<Rightarrow> NonError JUndefined | Some e \<Rightarrow> e), w))"
  by pat_completeness auto
termination
  by (relation "measure (\<lambda>(tr, config, rc, attempt, lastError, w). nat (retries rc + 1 - int attempt))")
     auto

declare axiosRetry_loop.simps [simp del]

definition axiosRetry ::
  "transport \<Rightarrow> AxiosRequestConfig \<Rightarrow> RetryConfig \<Rightarrow> world \<Rightarrow> (thrown + AxiosResponse) \<times> world" where
  "axiosRetry tr config retryConfig w = axiosRetry_loop tr config retryConfig 0 None w"

subsection \<open>\<open>ApiClient\<close>\<close>

text \<open>
  \<open>Partial<RetryConfig>\<close>: a key that is absent is \<open>None\<close>. The constructor
  spreads the defaults, then the argument.
\<close>

record PartialRetryConfig =
  p_retries :: "int option"
  p_retryDelay :: "int option"
  p_retryCondition :: "retry_condition option"

definition no_overrides :: PartialRetryConfig where
  "no_overrides = \<lparr>p_retries = None, p_retryDelay = None, p_retryCondition = None\<rparr>"

definition ApiClient :: "PartialRetryConfig \<Rightarrow> RetryConfig" where
  "ApiClient retryConfig =
     \<lparr>retries = (case p_retries retryConfig of None \<Rightarrow> retries DEFAULT_RETRY_CONFIG | Some n \<Rightarrow> n),
      retryDelay = (case p_retryDelay retryConfig of None \<Rightarrow> retryDelay DEFAULT_RETRY_CONFIG | Some d \<Rightarrow> d),
      retryCondition = (case p_retryCondition retryConfig of
                          None \<Rightarrow> retryCondition DEFAULT_RETRY_CONFIG
                        | Some c \<Rightarrow> Some c)\<rparr>"

definition api :: RetryConfig where
  "api = ApiClient no_overrides"

text \<open>\<open>{...config}\<close> for an optional \<open>config\<close>: no key at all when it is \<open>undefined\<close>.\<close>

definition spread :: "AxiosRequestConfig option \<Rightarrow> AxiosRequestConfig" where
  "spread config =
     (case config of
        None \<Rightarrow> \<lparr>method = None, url = None, data = None, headers = None, timeout = None\<rparr>
      | Some c \<Rightarrow> c)"

text \<open>\<open>return response.data\<close> after \<open>await axiosRetry(...)\<close>; a rejection passes through.\<close>

definition response_data ::
  "(thrown + AxiosResponse) \<times> world \<Rightarrow> (thrown + jsval) \<times> world" where
  "response_data r =
     (case r of
        (Inl e, w) \<Rightarrow> (Inl e, w)
      | (Inr response, w) \<Rightarrow> (Inr (resp_data response), w))"

definition get_request :: "string \<Rightarrow> AxiosRequestConfig option \<Rightarrow> AxiosRequestConfig" where
  "get_request u config = (spread config)\<lparr>method := Some ''GET'', url := Some u\<rparr>"

definition get ::
  "RetryConfig \<Rightarrow> transport \<Rightarrow> string \<Rightarrow> AxiosRequestConfig option \<Rightarrow> world
     \<Rightarrow> (thrown + jsval) \<times> world" where
  "get this tr u config w = response_data (axiosRetry tr (get_request u config) this w)"

definition post_request ::
  "string \<Rightarrow> body option \<Rightarrow> AxiosRequestConfig option \<Rightarrow> AxiosRequestConfig" where
  "post_request u d config = (spread config)\<lparr>method := Some ''POST'', url := Some u, data := d\<rparr>"

definition post ::
  "RetryConfig \<Rightarrow> transport \<Rightarrow> string \<Rightarrow> body option \<Rightarrow> AxiosRequestConfig option \<Rightarrow> world
     \<Rightarrow> (thrown + jsval) \<times> world" where
  "post this tr u d config w = response_data (axiosRetry tr (post_request u d config) this w)"

definition put_request ::
  "string \<Rightarrow> body option \<Rightarrow> AxiosRequestConfig option \<Rightarrow> AxiosRequestConfig" where
  "put_request u d config = (spread config)\<lparr>method := Some ''PUT'', url := Some u, data := d\<rparr>"

definition put ::
  "RetryConfig \<Rightarrow> transport \<Rightarrow> string \<Rightarrow> body option \<Rightarrow> AxiosRequestConfig option \<Rightarrow> world
     \<Rightarrow> (thrown + jsval) \<times> world" where
  "put this tr u d config w = response_data (axiosRetry tr (put_request u d config) this w)"

definition delete_request :: "string \<Rightarrow> AxiosRequestConfig option \<Rightarrow> AxiosRequestConfig" where
  "delete_request u config = (spread config)\<lparr>method := Some ''DELETE'', url := Some u\<rparr>"

definition delete ::
  "RetryConfig \<Rightarrow> transport \<Rightarrow> string \<Rightarrow> AxiosRequestConfig option \<Rightarrow> world
     \<Rightarrow> (thrown + jsval) \<times> world" where
  "delete this tr u config w = response_data (axiosRetry tr (delete_request u config) this w)"

text \<open>
  \<open>upload\<close>: \<open>{...config?.headers, 'Content-Type': 'multipart/form-data'}\<close>. An
  object spread followed by a key keeps the position of a key that is already
  there and replaces its value, and appends the key otherwise.
\<close>

definition caller_headers :: "AxiosRequestConfig option \<Rightarrow> (string \<times> string) list" where
  "caller_headers config =
     (case config of
        None \<Rightarrow> []
      | Some c \<Rightarrow> (case headers c of None \<Rightarrow> [] | Some h \<Rightarrow> h))"

definition upload_headers :: "AxiosRequestConfig option \<Rightarrow> (string \<times> string) list" where
  "upload_headers config = AList.update ''Content-Type'' ''multipart/form-data'' (caller_headers config)"

definition upload_request ::
  "string \<Rightarrow> (string \<times> form_entry) list \<Rightarrow> AxiosRequestConfig option \<Rightarrow> AxiosRequestConfig" where
  "upload_request u formData config =
     (spread config)\<lparr>method := Some ''POST'', url := Some u, data := Some (FormData formData),
                      headers := Some (upload_headers config)\<rparr>"

definition upload ::
  "RetryConfig \<Rightarrow> transport \<Rightarrow> string \<Rightarrow> (string \<times> form_entry) list \<Rightarrow> AxiosRequestConfig option
     \<Rightarrow> world \<Rightarrow> (thrown + jsval) \<times> world" where
  "upload this tr u formData config w =
     response_data (axiosRetry tr (upload_request u formData config) this w)"

subsection \<open>Error normalisation\<close>

text \<open>
  \<open>ApiError\<close>: an optional field that is \<open>undefined\<close> is \<open>None\<close> (\<open>JUndefined\<close> for
  \<open>details\<close>). The interface declares \<open>message: string\<close>, but nothing checks it
  when the program runs: the field holds whatever value the code puts there,
  \<open>undefined\<close> included.
\<close>

record ApiError =
  message :: jsval
  status :: "int option"
  code :: "string option"
  details :: jsval

definition handleApiError :: "thrown \<Rightarrow> ApiError" where
  "handleApiError error =
     (case error of
        AxiosErr axiosError \<Rightarrow>
          (case ae_response axiosError of
             Some response \<Rightarrow>
               (let responseData = resp_data response in
                \<lparr>message = js_or (message_of responseData)
                             (js_or (error_message axiosError) (JStr ''Server error occurred'')),
                 status = Some (resp_status response),
                 code = ae_code axiosError,
                 details = responseData\<rparr>)
           | None \<Rightarrow>
               if ae_request axiosError then
                 \<lparr>message = JStr ''Network error - please check your connection'',
                  status = None,
                  code = ae_code axiosError,
                  details = JUndefined\<rparr>
               else if ae_isError axiosError then
                 \<lparr>message = error_message axiosError, status = None, code = None,
                  details = JUndefined\<rparr>
               else
                 \<lparr>message = JStr ''An unexpected error occurred'', status = None, code = None,
                  details = JUndefined\<rparr>)
      | PlainError m \<Rightarrow> \<lparr>message = JStr m, status = None, code = None, details = JUndefined\<rparr>
      | NonError v \<Rightarrow>
          \<lparr>message = JStr ''An unexpected error occurred'', status = None, code = None,
           details = JUndefined\<rparr>)"

subsection \<open>The health probe\<close>

text \<open>
  \<open>try { await api.get('/health'); return true } catch { return false }\<close>. The
  result is a sum as for every other operation, so that whether the probe can
  raise is a property of the definition and not of its type.
\<close>

definition checkApiHealth :: "transport \<Rightarrow> world \<Rightarrow> (thrown + bool) \<times> world" where
  "checkApiHealth tr w =
     (case get api tr ''/health'' None w of
        (Inr body, w1) \<Rightarrow> (Inr True, w1)
      | (Inl error, w1) \<Rightarrow> (Inr False, w1))"

subsection \<open>The service wrappers\<close>

text \<open>
  \<open>new Error(message)\<close> converts its argument to a string. The conversion of a
  value that is not a string belongs to the language; it is the parameter
  \<open>conv\<close>. A string is taken as it is, and \<open>undefined\<close> leaves the message empty.
\<close>

definition new_Error :: "(jsval \<Rightarrow> string) \<Rightarrow> jsval \<Rightarrow> thrown" where
  "new_Error conv v =
     PlainError (case v of JUndefined \<Rightarrow> [] | JStr s \<Rightarrow> s | _ \<Rightarrow> conv v)"

text \<open>
  The \<open>catch\<close> block that every wrapper has:
  \<^verbatim>\<open>const apiError = handleApiError(error); throw new Error(apiError.message);\<close>
\<close>

definition rethrow ::
  "(jsval \<Rightarrow> string) \<Rightarrow> (thrown + jsval) \<times> world \<Rightarrow> (thrown + jsval) \<times> world" where
  "rethrow conv r =
     (case r of
        (Inr v, w) \<Rightarrow> (Inr v, w)
      | (Inl error, w) \<Rightarrow>
          (let apiError = handleApiError error
           in (Inl (new_Error conv (message apiError)), w)))"

definition summarizeText ::
  "(jsval \<Rightarrow> string) \<Rightarrow> transport \<Rightarrow> jsval \<Rightarrow> world \<Rightarrow> (thrown + jsval) \<times> world" where
  "summarizeText conv tr request w =
     rethrow conv (post api tr ''/api/summarize'' (Some (JsonBody request)) None w)"

definition answerQuestion ::
  "(jsval \<Rightarrow> string) \<Rightarrow> transport \<Rightarrow> jsval \<Rightarrow> world \<Rightarrow> (thrown + jsval) \<times> world" where
  "answerQuestion conv tr request w =
     rethrow conv (post api tr ''/api/qa'' (Some (JsonBody request)) None w)"

definition answerQuestionWithFile ::
  "(jsval \<Rightarrow> string) \<Rightarrow> transport \<Rightarrow> string \<Rightarrow> string \<Rightarrow> world \<Rightarrow> (thrown + jsval) \<times> world" where
  "answerQuestionWithFile conv tr question file w =
     (let formData = [(''question'', FormText question), (''file'', FormFile file)]
      in rethrow conv (upload api tr ''/api/qa'' formData None w))"

definition generatePath ::
  "(jsval \<Rightarrow> string) \<Rightarrow> transport \<Rightarrow> jsval \<Rightarrow> world \<Rightarrow> (thrown + jsval) \<times> world" where
  "generatePath conv tr request w =
     rethrow conv (post api tr ''/api/learning-path'' (Some (JsonBody request)) None w)"

definition checkHealth ::
  "(jsval \<Rightarrow> string) \<Rightarrow> transport \<Rightarrow> world \<Rightarrow> (thrown + jsval) \<times> world" where
  "checkHealth conv tr w = rethrow conv (get api tr ''/health'' None w)"

subsection \<open>Vocabulary of the specification and concrete inputs\<close>

text \<open>
  The specification's "5xx or network error": an axios error with no response,
  or with a response whose status lies in \<open>[500, 599]\<close>.
\<close>

definition network_or_5xx :: "thrown \<Rightarrow> bool" where
  "network_or_5xx t =
     (case t of
        AxiosErr e \<Rightarrow>
          (case ae_response e of
             None \<Rightarrow> True
           | Some r \<Rightarrow> 500 \<le> resp_status r \<and> resp_status r \<le> 599)
      | _ \<Rightarrow> False)"

definition world0 :: world where
  "world0 = \<lparr>calls = [], sleeps = []\<rparr>"

definition any_request :: AxiosRequestConfig where
  "any_request = \<lparr>method = Some ''GET'', url = Some ''/test'', data = None, headers = None,
                   timeout = None\<rparr>"

definition bad_request_400 :: thrown where
  "bad_request_400 =
     AxiosErr \<lparr>ae_isError = True, ae_message = Some ''Request failed with status code 400'',
               ae_code = Some ''ERR_BAD_REQUEST'',
               ae_response = Some \<lparr>resp_status = 400,
                                    resp_data = JObj [(''message'', JStr ''Bad request'')]\<rparr>,
               ae_request = True\<rparr>"

definition timeout_with_400 :: thrown where
  "timeout_with_400 =
     AxiosErr \<lparr>ae_isError = True, ae_message = Some ''timeout of 30000ms exceeded'',
               ae_code = Some ''ECONNABORTED'',
               ae_response = Some \<lparr>resp_status = 400, resp_data = JObj []\<rparr>,
               ae_request = True\<rparr>"

definition network_code_with_404 :: thrown where
  "network_code_with_404 =
     AxiosErr \<lparr>ae_isError = True, ae_message = Some ''Request failed with status code 404'',
               ae_code = Some ''NETWORK_ERROR'',
               ae_response = Some \<lparr>resp_status = 404, resp_data = JObj []\<rparr>,
               ae_request = True\<rparr>"

text \<open>\<open>new AxiosError()\<close>: no message, no code, no request, no response.\<close>

definition messageless_AxiosError :: thrown where
  "messageless_AxiosError =
     AxiosErr \<lparr>ae_isError = True, ae_message = None, ae_code = None, ae_response = None,
               ae_request = False\<rparr>"

definition network_error :: thrown where
  "network_error =
     AxiosErr \<lparr>ae_isError = True, ae_message = Some ''Network Error'', ae_code = Some ''ERR_NETWORK'',
               ae_response = None, ae_request = True\<rparr>"

definition server_error_500 :: thrown where
  "server_error_500 =
     AxiosErr \<lparr>ae_isError = True, ae_message = Some ''Request failed with status code 500'',
               ae_code = Some ''ERR_BAD_RESPONSE'',
               ae_response = Some \<lparr>resp_status = 500, resp_data = JObj []\<rparr>,
               ae_request = True\<rparr>"

definition ok_200 :: AxiosResponse where
  "ok_200 = \<lparr>resp_status = 200, resp_data = JObj [(''status'', JStr ''ok'')]\<rparr>"


text \<open>A transport that rejects every invocation, and one that rejects the first \<open>n\<close>.\<close>

definition always_rejects :: "thrown \<Rightarrow> transport" where
  "always_rejects e = (\<lambda>i config. Inl e)"

definition rejects_then_resolves :: "nat \<Rightarrow> thrown \<Rightarrow> AxiosResponse \<Rightarrow> transport" where
  "rejects_then_resolves n e r = (\<lambda>i config. if i < n then Inl e else Inr r)"

section \<open>The retry loop, step by step\<close>

lemma loop_resolve:
  assumes "int attempt \<le> retries rc" and "tr (length (calls w)) config = Inr resp"
  shows "axiosRetry_loop tr config rc attempt lastError w =
           (Inr resp, w\<lparr>calls := calls w @ [config]\<rparr>)"
  using assms by (subst axiosRetry_loop.simps) (simp add: apiClient_request_def)

lemma loop_give_up:
  assumes "int attempt \<le> retries rc" and "tr (length (calls w)) config = Inl e"
    and "int attempt = retries rc \<or> retryCondition rc = None
           \<or> (\<exists>cond. retryCondition rc = Some cond \<and> cond e = Inr False)"
  shows "axiosRetry_loop tr config rc attempt lastError w =
           (Inl e, w\<lparr>calls := calls w @ [config]\<rparr>)"
  using assms by (subst axiosRetry_loop.simps) (auto simp add: apiClient_request_def)

lemma loop_condition_raises:
  assumes "int attempt < retries rc" and "tr (length (calls w)) config = Inl e"
    and "retryCondition rc = Some cond" and "cond e = Inl raised"
  shows "axiosRetry_loop tr config rc attempt lastError w =
           (Inl raised, w\<lparr>calls := calls w @ [config]\<rparr>)"
  using assms by (subst axiosRetry_loop.simps) (simp add: apiClient_request_def)

lemma loop_retry:
  assumes "int attempt < retries rc" and "tr (length (calls w)) config = Inl e"
    and "retryCondition rc = Some cond" and "cond e = Inr True"
  shows "axiosRetry_loop tr config rc attempt lastError w =
           axiosRetry_loop tr config rc (Suc attempt) (Some e)
             (w\<lparr>calls := calls w @ [config], sleeps := sleeps w @ [retryDelay rc * 2 ^ attempt]\<rparr>)"
  using assms by (subst axiosRetry_loop.simps) (simp add: apiClient_request_def sleep_def)

text \<open>One iteration of the loop does one of four things.\<close>

lemma loop_step_cases:
  obtains
    (skipped) "\<not> int attempt \<le> retries rc"
      "axiosRetry_loop tr config rc attempt lastError w =
         (Inl (case lastError of None \<Rightarrow> NonError JUndefined | Some e \<Rightarrow> e), w)"
  | (resolved) resp where "int attempt \<le> retries rc"
      "tr (length (calls w)) config = Inr resp"
      "axiosRetry_loop tr config rc attempt lastError w = (Inr resp, w\<lparr>calls := calls w @ [config]\<rparr>)"
  | (rejected) e t where "int attempt \<le> retries rc"
      "tr (length (calls w)) config = Inl e"
      "axiosRetry_loop tr config rc attempt lastError w = (Inl t, w\<lparr>calls := calls w @ [config]\<rparr>)"
  | (retried) e cond where "int attempt < retries rc"
      "tr (length (calls w)) config = Inl e" "retryCondition rc = Some cond" "cond e = Inr True"
      "axiosRetry_loop tr config rc attempt lastError w =
         axiosRetry_loop tr config rc (Suc attempt) (Some e)
           (w\<lparr>calls := calls w @ [config], sleeps := sleeps w @ [retryDelay rc * 2 ^ attempt]\<rparr>)"
proof (cases "int attempt \<le> retries rc")
  case False
  then show ?thesis
    by (intro skipped) (simp_all add: axiosRetry_loop.simps)
next
  case le: True
  show ?thesis
  proof (cases "tr (length (calls w)) config")
    case (Inr resp)
    with le show ?thesis
      by (intro resolved[of resp]) (simp_all add: axiosRetry_loop.simps apiClient_request_def)
  next
    case (Inl e)
    show ?thesis
    proof (cases "int attempt < retries rc \<and> (\<exists>cond. retryCondition rc = Some cond \<and> cond e = Inr True)")
      case True
      then obtain cond where c: "int attempt < retries rc" "retryCondition rc = Some cond" "cond e = Inr True"
        by blast
      show ?thesis
        using c Inl loop_retry[where e=e and cond=cond and attempt=attempt and rc=rc and tr=tr and w=w
                   and config=config and lastError=lastError]
        by (intro retried[of e cond]) simp_all
    next
      case False
      have "\<exists>t. axiosRetry_loop tr config rc attempt lastError w = (Inl t, w\<lparr>calls := calls w @ [config]\<rparr>)"
        using le Inl False
        by (subst axiosRetry_loop.simps)
           (auto simp: apiClient_request_def split: option.splits sum.splits)
      then show ?thesis using le Inl by (auto intro: rejected)
    qed
  qed
qed

text \<open>\<open>k\<close> retried failures in a row advance the loop by \<open>k\<close> iterations.\<close>

lemma loop_retries:
  assumes "int (attempt + k) \<le> retries rc"
    and "\<forall>i<k. \<exists>e cond. tr (length (calls w) + i) config = Inl e
            \<and> retryCondition rc = Some cond \<and> cond e = Inr True"
  shows "\<exists>l. axiosRetry_loop tr config rc attempt lastError w =
           axiosRetry_loop tr config rc (attempt + k) l
             (w\<lparr>calls := calls w @ replicate k config,
                sleeps := sleeps w @ map (\<lambda>i. retryDelay rc * 2 ^ i) [attempt..<attempt + k]\<rparr>)"
  using assms
proof (induction k arbitrary: attempt lastError w)
  case 0
  then show ?case by (intro exI[of _ lastError]) simp
next
  case (Suc k)
  from Suc.prems(2) obtain e cond where
    e: "tr (length (calls w)) config = Inl e" "retryCondition rc = Some cond" "cond e = Inr True"
    by force
  let ?w = "w\<lparr>calls := calls w @ [config], sleeps := sleeps w @ [retryDelay rc * 2 ^ attempt]\<rparr>"
  have step: "axiosRetry_loop tr config rc attempt lastError w =
      axiosRetry_loop tr config rc (Suc attempt) (Some e) ?w"
    using Suc.prems(1) e
      loop_retry[where e=e and cond=cond and attempt=attempt and rc=rc and tr=tr and w=w
                   and config=config and lastError=lastError]
    by simp
  have later: "\<forall>i<k. \<exists>e cond. tr (length (calls ?w) + i) config = Inl e
            \<and> retryCondition rc = Some cond \<and> cond e = Inr True"
  proof (intro allI impI)
    fix i assume "i < k"
    then have "Suc i < Suc k" by simp
    with Suc.prems(2) show "\<exists>e cond. tr (length (calls ?w) + i) config = Inl e
            \<and> retryCondition rc = Some cond \<and> cond e = Inr True"
      by fastforce
  qed
  have bound: "int (Suc attempt + k) \<le> retries rc"
    using Suc.prems(1) by simp
  from Suc.IH[OF bound later, of "Some e"]
  obtain l where rest: "axiosRetry_loop tr config rc (Suc attempt) (Some e) ?w =
           axiosRetry_loop tr config rc (Suc attempt + k) l
             (?w\<lparr>calls := calls ?w @ replicate k config,
                sleeps := sleeps ?w @ map (\<lambda>i. retryDelay rc * 2 ^ i) [Suc attempt..<Suc attempt + k]\<rparr>)"
    by blast
  have upt: "[attempt..<attempt + Suc k] = attempt # [Suc attempt..<Suc attempt + k]"
    by (simp add: upt_rec)
  have world_eq: "?w\<lparr>calls := calls ?w @ replicate k config,
                sleeps := sleeps ?w @ map (\<lambda>i. retryDelay rc * 2 ^ i) [Suc attempt..<Suc attempt + k]\<rparr>
        = w\<lparr>calls := calls w @ replicate (Suc k) config,
                sleeps := sleeps w @ map (\<lambda>i. retryDelay rc * 2 ^ i) [attempt..<attempt + Suc k]\<rparr>"
    unfolding upt by simp
  show ?case
    using step rest unfolding world_eq by (intro exI[of _ l]) simp
qed

text \<open>A response that the loop returns is one the transport gave.\<close>

lemma loop_resolved_by_transport:
  "axiosRetry_loop tr config rc attempt lastError w = (Inr resp, w') \<Longrightarrow>
     \<exists>i\<ge>length (calls w). tr i config = Inr resp"
proof (induction "nat (retries rc + 1 - int attempt)" arbitrary: attempt lastError w)
  case 0
  then show ?case
    by (cases rule: loop_step_cases[of attempt rc tr config lastError w]) auto
next
  case (Suc n)
  show ?case
  proof (cases rule: loop_step_cases[of attempt rc tr config lastError w])
    case skipped
    with Suc.prems show ?thesis by simp
  next
    case (resolved r)
    with Suc.prems show ?thesis by auto
  next
    case (rejected e t)
    with Suc.prems show ?thesis by simp
  next
    case (retried e cond)
    let ?w = "w\<lparr>calls := calls w @ [config], sleeps := sleeps w @ [retryDelay rc * 2 ^ attempt]\<rparr>"
    have "n = nat (retries rc + 1 - int (Suc attempt))"
      using Suc.hyps(2) by simp
    from Suc.hyps(1)[OF this, of "Some e" ?w] retried(5) Suc.prems
    obtain i where "i \<ge> length (calls ?w)" "tr i config = Inr resp"
      by auto
    then show ?thesis by (intro exI[of _ i]) simp
  qed
qed

text \<open>The loop dispatches the request it was given, at least once and at most \<open>retries + 1\<close> times.\<close>

lemma loop_calls:
  "\<exists>n. calls (snd (axiosRetry_loop tr config rc attempt lastError w)) = calls w @ replicate n config
       \<and> (int attempt \<le> retries rc \<longrightarrow> 1 \<le> n)
       \<and> int n \<le> max 0 (retries rc + 1 - int attempt)"
proof (induction "nat (retries rc + 1 - int attempt)" arbitrary: attempt lastError w)
  case 0
  then show ?case
    by (cases rule: loop_step_cases[of attempt rc tr config lastError w]) auto
next
  case (Suc m)
  show ?case
  proof (cases rule: loop_step_cases[of attempt rc tr config lastError w])
    case skipped
    then show ?thesis by simp
  next
    case (resolved r)
    then show ?thesis by (intro exI[of _ 1]) simp
  next
    case (rejected e t)
    then show ?thesis by (intro exI[of _ 1]) simp
  next
    case (retried e cond)
    let ?w = "w\<lparr>calls := calls w @ [config], sleeps := sleeps w @ [retryDelay rc * 2 ^ attempt]\<rparr>"
    have "m = nat (retries rc + 1 - int (Suc attempt))"
      using Suc.hyps(2) by simp
    from Suc.hyps(1)[OF this, of "Some e" ?w]
    obtain n where n: "calls (snd (axiosRetry_loop tr config rc (Suc attempt) (Some e) ?w)) =
          calls ?w @ replicate n config" "int n \<le> max 0 (retries rc + 1 - int (Suc attempt))"
      by blast
    have "calls ?w @ replicate n config = calls w @ replicate (Suc n) config"
      by simp
    with n retried show ?thesis
      by (intro exI[of _ "Suc n"]) (simp del: replicate_Suc)
  qed
qed

section \<open>\<open>axiosRetry\<close> as a whole\<close>

lemma axiosRetry_gives_up:
  assumes "0 \<le> retries rc" and "tr (length (calls w)) config = Inl e"
    and "retries rc = 0 \<or> retryCondition rc = None
           \<or> (\<exists>cond. retryCondition rc = Some cond \<and> cond e = Inr False)"
  shows "axiosRetry tr config rc w = (Inl e, w\<lparr>calls := calls w @ [config]\<rparr>)"
  unfolding axiosRetry_def using assms by (intro loop_give_up) auto

lemma axiosRetry_resolves_after:
  assumes "int k \<le> retries rc"
    and "\<forall>i<k. \<exists>e cond. tr (length (calls w) + i) config = Inl e
            \<and> retryCondition rc = Some cond \<and> cond e = Inr True"
    and "tr (length (calls w) + k) config = Inr resp"
  shows "axiosRetry tr config rc w =
           (Inr resp, w\<lparr>calls := calls w @ replicate (Suc k) config,
                          sleeps := sleeps w @ map (\<lambda>i. retryDelay rc * 2 ^ i) [0..<k]\<rparr>)"
proof -
  let ?w = "w\<lparr>calls := calls w @ replicate k config,
               sleeps := sleeps w @ map (\<lambda>i. retryDelay rc * 2 ^ i) [0..<k]\<rparr>"
  from loop_retries[of 0 k rc tr w config None] assms(1,2)
  obtain l where "axiosRetry_loop tr config rc 0 None w = axiosRetry_loop tr config rc k l ?w"
    by auto
  moreover have "axiosRetry_loop tr config rc k l ?w = (Inr resp, ?w\<lparr>calls := calls ?w @ [config]\<rparr>)"
    using assms(1,3) by (intro loop_resolve) simp_all
  moreover have "?w\<lparr>calls := calls ?w @ [config]\<rparr> =
      w\<lparr>calls := calls w @ replicate (Suc k) config,
        sleeps := sleeps w @ map (\<lambda>i. retryDelay rc * 2 ^ i) [0..<k]\<rparr>"
    by (simp add: replicate_append_same)
  ultimately show ?thesis by (simp add: axiosRetry_def)
qed

lemma axiosRetry_exhausts:
  assumes "0 \<le> retries rc"
    and "\<forall>i\<le>nat (retries rc). tr (length (calls w) + i) config = Inl (f i)"
    and "\<forall>i<nat (retries rc). \<exists>cond. retryCondition rc = Some cond \<and> cond (f i) = Inr True"
  shows "axiosRetry tr config rc w =
           (Inl (f (nat (retries rc))),
            w\<lparr>calls := calls w @ replicate (Suc (nat (retries rc))) config,
              sleeps := sleeps w @ map (\<lambda>i. retryDelay rc * 2 ^ i) [0..<nat (retries rc)]\<rparr>)"
proof -
  let ?k = "nat (retries rc)"
  let ?w = "w\<lparr>calls := calls w @ replicate ?k config,
               sleeps := sleeps w @ map (\<lambda>i. retryDelay rc * 2 ^ i) [0..<?k]\<rparr>"
  have "\<forall>i<?k. \<exists>e cond. tr (length (calls w) + i) config = Inl e
            \<and> retryCondition rc = Some cond \<and> cond e = Inr True"
    using assms(2,3) by (metis less_imp_le_nat)
  with loop_retries[of 0 ?k rc tr w config None] assms(1)
  obtain l where "axiosRetry_loop tr config rc 0 None w = axiosRetry_loop tr config rc ?k l ?w"
    by auto
  moreover have "axiosRetry_loop tr config rc ?k l ?w =
      (Inl (f ?k), ?w\<lparr>calls := calls ?w @ [config]\<rparr>)"
    using assms(1,2) by (intro loop_give_up) simp_all
  moreover have "?w\<lparr>calls := calls ?w @ [config]\<rparr> =
      w\<lparr>calls := calls w @ replicate (Suc ?k) config,
        sleeps := sleeps w @ map (\<lambda>i. retryDelay rc * 2 ^ i) [0..<?k]\<rparr>"
    by (simp add: replicate_append_same)
  ultimately show ?thesis by (simp add: axiosRetry_def)
qed

lemma backoff_sum:
  "sum_list (map (\<lambda>i. d * 2 ^ i) [0..<n]) = (d::int) * (2 ^ n - 1)"
  by (induction n) (simp_all add: algebra_simps)

lemma api_is_default: "api = DEFAULT_RETRY_CONFIG"
  by (simp add: api_def ApiClient_def no_overrides_def DEFAULT_RETRY_CONFIG_def)

lemma network_or_5xx_is_retried:
  "network_or_5xx t \<Longrightarrow> default_retryCondition t = Inr True"
  by (cases t) (auto simp: network_or_5xx_def split: option.splits)

lemma default_delays:
  "map (\<lambda>i. (1000::int) * 2 ^ i) [0..<3] = [1000, 2000, 4000]"
  by (simp add: upt_rec)

lemma replicate_4: "replicate 4 x = [x, x, x, x]"
  by (simp add: numeral_eq_Suc)

lemma fst_response_data:
  "fst (response_data r) = (case fst r of Inl e \<Rightarrow> Inl e | Inr resp \<Rightarrow> Inr (resp_data resp))"
  by (cases r) (auto simp: response_data_def split: sum.splits)

lemma snd_response_data: "snd (response_data r) = snd r"
  by (cases r) (auto simp: response_data_def split: sum.splits)

lemma axiosRetry_calls:
  assumes "0 \<le> retries rc"
  shows "\<exists>n. 1 \<le> n \<and> int n \<le> retries rc + 1
           \<and> calls (snd (axiosRetry tr config rc w)) = calls w @ replicate n config"
proof -
  from loop_calls[of tr config rc 0 None w]
  obtain n where "calls (snd (axiosRetry_loop tr config rc 0 None w)) = calls w @ replicate n config"
    "int 0 \<le> retries rc \<longrightarrow> 1 \<le> n" "int n \<le> max 0 (retries rc + 1 - int 0)"
    by blast
  with assms show ?thesis
    by (intro exI[of _ n]) (simp add: axiosRetry_def)
qed

lemma axiosRetry_rejected_throughout:
  assumes "\<forall>i. \<exists>e. tr i config = Inl e"
  shows "\<exists>e. fst (axiosRetry tr config rc w) = Inl e"
proof (cases "fst (axiosRetry tr config rc w)")
  case (Inl e)
  then show ?thesis by blast
next
  case (Inr resp)
  then have "axiosRetry_loop tr config rc 0 None w = (Inr resp, snd (axiosRetry tr config rc w))"
    by (metis axiosRetry_def prod.collapse)
  from loop_resolved_by_transport[OF this]
  obtain i where "tr i config = Inr resp" by blast
  moreover from assms obtain e where "tr i config = Inl e" by blast
  ultimately show ?thesis by simp
qed

lemma health_request:
  "get_request ''/health'' None =
     \<lparr>method = Some ''GET'', url = Some ''/health'', data = None, headers = None, timeout = None\<rparr>"
  by (simp add: get_request_def spread_def)


section \<open>Truthiness and the message of a normalised error\<close>

lemma truthy_present: "truthy v \<Longrightarrow> v \<noteq> JUndefined \<and> v \<noteq> JNull"
  by (cases v) auto

lemma response_message:
  "js_or b (js_or (error_message e) (JStr ''Server error occurred'')) =
     (if truthy b then b
      else (case ae_message e of
              None \<Rightarrow> JStr ''Server error occurred''
            | Some m \<Rightarrow> if m \<noteq> [] then JStr m else JStr ''Server error occurred''))"
  by (simp add: js_or_def error_message_def split: option.splits)

section \<open>Failure classification and immediate failure\<close>

text \<open>
  C1, as amended. The default retry condition classifies an axios error as
  transient exactly when it has no response, or its code is \<open>ECONNABORTED\<close> or
  \<open>NETWORK_ERROR\<close> (with or without a response), or its response has a status
  in \<open>[500, 599]\<close>; an \<open>Error\<close> that is not an axios error has no response and is
  transient. When the first failure of a request is not transient, the
  client makes exactly one transport attempt, does not sleep, and raises that
  failure; this is so in particular for a response with a status in
  \<open>[400, 499]\<close> whose code is neither of the two.
\<close>

theorem non_transient_failure_is_raised_at_once:
  "default_retryCondition (AxiosErr e) =
     Inr (ae_response e = None
          \<or> ae_code e = Some ''ECONNABORTED'' \<or> ae_code e = Some ''NETWORK_ERROR''
          \<or> (\<exists>r. ae_response e = Some r \<and> 500 \<le> resp_status r \<and> resp_status r \<le> 599))
   \<and> default_retryCondition (PlainError m) = Inr True
   \<and> (0 \<le> retries rc \<and> retryCondition rc = Some default_retryCondition
        \<and> tr (length (calls w)) config = Inl t \<and> default_retryCondition t = Inr False
      \<longrightarrow> axiosRetry tr config rc w = (Inl t, w\<lparr>calls := calls w @ [config]\<rparr>))
   \<and> (0 \<le> retries rc \<and> retryCondition rc = Some default_retryCondition
        \<and> tr (length (calls w)) config = Inl (AxiosErr e)
        \<and> (\<exists>r. ae_response e = Some r \<and> 400 \<le> resp_status r \<and> resp_status r \<le> 499)
        \<and> ae_code e \<noteq> Some ''ECONNABORTED'' \<and> ae_code e \<noteq> Some ''NETWORK_ERROR''
      \<longrightarrow> axiosRetry tr config rc w = (Inl (AxiosErr e), w\<lparr>calls := calls w @ [config]\<rparr>))"
proof (intro conjI impI)
  show "default_retryCondition (AxiosErr e) =
     Inr (ae_response e = None
          \<or> ae_code e = Some ''ECONNABORTED'' \<or> ae_code e = Some ''NETWORK_ERROR''
          \<or> (\<exists>r. ae_response e = Some r \<and> 500 \<le> resp_status r \<and> resp_status r \<le> 599))"
    by (cases "ae_response e") auto
next
  show "default_retryCondition (PlainError m) = Inr True"
    by simp
next
  assume "0 \<le> retries rc \<and> retryCondition rc = Some default_retryCondition
        \<and> tr (length (calls w)) config = Inl t \<and> default_retryCondition t = Inr False"
  then show "axiosRetry tr config rc w = (Inl t, w\<lparr>calls := calls w @ [config]\<rparr>)"
    by (intro axiosRetry_gives_up) auto
next
  assume a: "0 \<le> retries rc \<and> retryCondition rc = Some default_retryCondition
        \<and> tr (length (calls w)) config = Inl (AxiosErr e)
        \<and> (\<exists>r. ae_response e = Some r \<and> 400 \<le> resp_status r \<and> resp_status r \<le> 499)
        \<and> ae_code e \<noteq> Some ''ECONNABORTED'' \<and> ae_code e \<noteq> Some ''NETWORK_ERROR''"
  then have "default_retryCondition (AxiosErr e) = Inr False"
    by auto
  with a show "axiosRetry tr config rc w = (Inl (AxiosErr e), w\<lparr>calls := calls w @ [config]\<rparr>)"
    by (intro axiosRetry_gives_up) auto
qed

theorem non_transient_failure_is_raised_at_once_witness:
  "0 \<le> retries DEFAULT_RETRY_CONFIG
   \<and> retryCondition DEFAULT_RETRY_CONFIG = Some default_retryCondition
   \<and> always_rejects bad_request_400 (length (calls world0)) any_request = Inl bad_request_400
   \<and> default_retryCondition bad_request_400 = Inr False
   \<and> axiosRetry (always_rejects bad_request_400) any_request DEFAULT_RETRY_CONFIG world0 =
       (Inl bad_request_400, \<lparr>calls = [any_request], sleeps = []\<rparr>)"
  using non_transient_failure_is_raised_at_once
          [of "\<lparr>ae_isError = True, ae_message = Some ''Request failed with status code 400'',
               ae_code = Some ''ERR_BAD_REQUEST'',
               ae_response = Some \<lparr>resp_status = 400,
                                    resp_data = JObj [(''message'', JStr ''Bad request'')]\<rparr>,
               ae_request = True\<rparr>" "[]" DEFAULT_RETRY_CONFIG "always_rejects bad_request_400"
              world0 any_request bad_request_400]
  by (simp add: DEFAULT_RETRY_CONFIG_def always_rejects_def bad_request_400_def world0_def)

text \<open>
  C1 as stated fails: a failure that carries a response with status 404 and the
  code \<open>NETWORK_ERROR\<close>, and one that carries a response with status 400 and the
  timeout code \<open>ECONNABORTED\<close>, are both retried. Under the default
  configuration the transport is invoked four times, with three delays, before
  the failure is raised.
\<close>

theorem response_4xx_with_retry_code_is_retried:
  "(case network_code_with_404 of
      AxiosErr e \<Rightarrow> map_option resp_status (ae_response e)
    | PlainError m \<Rightarrow> None
    | NonError v \<Rightarrow> None) = Some 404
   \<and> axiosRetry (always_rejects network_code_with_404) any_request DEFAULT_RETRY_CONFIG world0 =
       (Inl network_code_with_404,
        \<lparr>calls = [any_request, any_request, any_request, any_request],
         sleeps = [1000, 2000, 4000]\<rparr>)
   \<and> length (calls (snd (axiosRetry (always_rejects network_code_with_404) any_request
                           DEFAULT_RETRY_CONFIG world0))) \<noteq> 1
   \<and> (case timeout_with_400 of
      AxiosErr e \<Rightarrow> map_option resp_status (ae_response e)
    | PlainError m \<Rightarrow> None
    | NonError v \<Rightarrow> None) = Some 400
   \<and> axiosRetry (always_rejects timeout_with_400) any_request DEFAULT_RETRY_CONFIG world0 =
       (Inl timeout_with_400,
        \<lparr>calls = [any_request, any_request, any_request, any_request],
         sleeps = [1000, 2000, 4000]\<rparr>)"
proof -
  have exhausted: "axiosRetry (always_rejects t) any_request DEFAULT_RETRY_CONFIG world0 =
       (Inl t,
        \<lparr>calls = [any_request, any_request, any_request, any_request],
         sleeps = [1000, 2000, 4000]\<rparr>)"
    if "default_retryCondition t = Inr True" for t
  proof -
    have "axiosRetry (always_rejects t) any_request DEFAULT_RETRY_CONFIG world0 =
      (Inl ((\<lambda>i. t) (nat (retries DEFAULT_RETRY_CONFIG))),
       world0\<lparr>calls := calls world0 @ replicate (Suc (nat (retries DEFAULT_RETRY_CONFIG))) any_request,
              sleeps := sleeps world0 @
                map (\<lambda>i. retryDelay DEFAULT_RETRY_CONFIG * 2 ^ i)
                  [0..<nat (retries DEFAULT_RETRY_CONFIG)]\<rparr>)"
      using that
      by (intro axiosRetry_exhausts) (simp_all add: DEFAULT_RETRY_CONFIG_def always_rejects_def)
    moreover have "nat (retries DEFAULT_RETRY_CONFIG) = 3" "retryDelay DEFAULT_RETRY_CONFIG = 1000"
      by (simp_all add: DEFAULT_RETRY_CONFIG_def)
    ultimately show ?thesis
      using default_delays by (simp add: world0_def numeral_3_eq_3)
  qed
  have "default_retryCondition network_code_with_404 = Inr True"
    by (simp add: network_code_with_404_def)
  note a = exhausted[OF this]
  have "default_retryCondition timeout_with_400 = Inr True"
    by (simp add: timeout_with_400_def)
  note b = exhausted[OF this]
  show ?thesis
    unfolding a b by (simp add: network_code_with_404_def timeout_with_400_def)
qed

section \<open>Exhausting the retries\<close>

text \<open>
  C2. When every attempt of a request fails with a network error or a 5xx
  response, the client (with the default retry condition and a retry count
  \<open>retries \<ge> 0\<close>) invokes the transport exactly \<open>1 + retries\<close> times, sleeps
  \<open>retryDelay * 2 ^ i\<close> before retry \<open>i\<close> (counted from \<open>0\<close>), and raises the
  failure of the last attempt. The delays add up to
  \<open>retryDelay * (2 ^ retries - 1)\<close>; with 3 retries and a base delay of 1000 they
  are 1000, 2000 and 4000, in total 7000, over 4 attempts.
\<close>

theorem persistent_transient_failure_exhausts_retries:
  assumes "0 \<le> retries rc" and "retryCondition rc = Some default_retryCondition"
    and "\<forall>i\<le>nat (retries rc). tr (length (calls w) + i) config = Inl (f i) \<and> network_or_5xx (f i)"
  shows "axiosRetry tr config rc w =
           (Inl (f (nat (retries rc))),
            w\<lparr>calls := calls w @ replicate (1 + nat (retries rc)) config,
              sleeps := sleeps w @ map (\<lambda>i. retryDelay rc * 2 ^ i) [0..<nat (retries rc)]\<rparr>)
         \<and> sum_list (map (\<lambda>i. retryDelay rc * 2 ^ i) [0..<nat (retries rc)]) =
             retryDelay rc * (2 ^ nat (retries rc) - 1)
         \<and> (retries rc = 3 \<and> retryDelay rc = 1000 \<longrightarrow>
              replicate (1 + nat (retries rc)) config = [config, config, config, config]
              \<and> map (\<lambda>i. retryDelay rc * 2 ^ i) [0..<nat (retries rc)] = [1000, 2000, 4000]
              \<and> retryDelay rc * (2 ^ nat (retries rc) - 1) = 7000)"
proof (intro conjI impI)
  have "\<forall>i<nat (retries rc). \<exists>cond. retryCondition rc = Some cond \<and> cond (f i) = Inr True"
    using assms(2,3) by (auto intro: network_or_5xx_is_retried)
  moreover have "\<forall>i\<le>nat (retries rc). tr (length (calls w) + i) config = Inl (f i)"
    using assms(3) by simp
  ultimately show "axiosRetry tr config rc w =
           (Inl (f (nat (retries rc))),
            w\<lparr>calls := calls w @ replicate (1 + nat (retries rc)) config,
              sleeps := sleeps w @ map (\<lambda>i. retryDelay rc * 2 ^ i) [0..<nat (retries rc)]\<rparr>)"
    using axiosRetry_exhausts[OF assms(1), of tr w config f] by simp
next
  show "sum_list (map (\<lambda>i. retryDelay rc * 2 ^ i) [0..<nat (retries rc)]) =
             retryDelay rc * (2 ^ nat (retries rc) - 1)"
    by (rule backoff_sum)
next
  assume d: "retries rc = 3 \<and> retryDelay rc = 1000"
  then show "replicate (1 + nat (retries rc)) config = [config, config, config, config]"
    using replicate_4[of config] by simp
  from d show "map (\<lambda>i. retryDelay rc * 2 ^ i) [0..<nat (retries rc)] = [1000, 2000, 4000]"
    using default_delays by simp
  from d show "retryDelay rc * (2 ^ nat (retries rc) - 1) = 7000"
    by simp
qed

theorem persistent_transient_failure_exhausts_retries_witness:
  "0 \<le> retries DEFAULT_RETRY_CONFIG
   \<and> retryCondition DEFAULT_RETRY_CONFIG = Some default_retryCondition
   \<and> nat (retries DEFAULT_RETRY_CONFIG) = 3
   \<and> map (\<lambda>i. always_rejects server_error_500 (length (calls world0) + i) any_request) [0, 1, 2, 3] =
       [Inl server_error_500, Inl server_error_500, Inl server_error_500, Inl server_error_500]
   \<and> network_or_5xx server_error_500
   \<and> axiosRetry (always_rejects server_error_500) any_request DEFAULT_RETRY_CONFIG world0 =
       (Inl server_error_500,
        \<lparr>calls = [any_request, any_request, any_request, any_request],
         sleeps = [1000, 2000, 4000]\<rparr>)
   \<and> sum_list [1000, 2000, 4000 :: int] = 7000"
proof -
  have h1: "0 \<le> retries DEFAULT_RETRY_CONFIG"
    and h2: "retryCondition DEFAULT_RETRY_CONFIG = Some default_retryCondition"
    and d: "retries DEFAULT_RETRY_CONFIG = 3 \<and> retryDelay DEFAULT_RETRY_CONFIG = 1000"
    by (simp_all add: DEFAULT_RETRY_CONFIG_def)
  have h3: "\<forall>i\<le>nat (retries DEFAULT_RETRY_CONFIG).
        always_rejects server_error_500 (length (calls world0) + i) any_request =
          Inl ((\<lambda>i. server_error_500) i)
        \<and> network_or_5xx ((\<lambda>i. server_error_500) i)"
    by (simp add: always_rejects_def network_or_5xx_def server_error_500_def)
  have e1: "map (\<lambda>i. always_rejects server_error_500 (length (calls world0) + i) any_request)
               [0, 1, 2, 3] =
       [Inl server_error_500, Inl server_error_500, Inl server_error_500, Inl server_error_500]"
    by (simp add: always_rejects_def)
  have e2: "network_or_5xx server_error_500"
    by (simp add: network_or_5xx_def server_error_500_def)
  from persistent_transient_failure_exhausts_retries
         [where f = "\<lambda>i. server_error_500" and rc = DEFAULT_RETRY_CONFIG and w = world0
            and tr = "always_rejects server_error_500" and config = any_request]
       d h1 h2 h3
  have "axiosRetry (always_rejects server_error_500) any_request DEFAULT_RETRY_CONFIG world0 =
       (Inl server_error_500,
        \<lparr>calls = [any_request, any_request, any_request, any_request],
         sleeps = [1000, 2000, 4000]\<rparr>)"
    by (simp add: world0_def)
  with h1 h2 d e1 e2 show ?thesis
    by simp
qed

section \<open>Success after transient failures\<close>

text \<open>
  C3. When the transport resolves on the \<open>k\<close>-th attempt (\<open>1 \<le> k \<le> retries + 1\<close>)
  after \<open>k - 1\<close> failures that the client's retry condition accepts, the client
  invokes the transport exactly \<open>k\<close> times (sleeping before each retry) and
  returns the body of that response; \<open>get\<close> is the instance for a \<open>GET\<close>
  request. For \<open>k = 1\<close> the transport never fails and is invoked exactly once.
\<close>

theorem request_resolves_on_kth_attempt:
  assumes "1 \<le> k" and "int k \<le> retries this + 1"
    and "\<forall>i<k - 1. \<exists>e cond. tr (length (calls w) + i) req = Inl e
            \<and> retryCondition this = Some cond \<and> cond e = Inr True"
    and "tr (length (calls w) + (k - 1)) req = Inr response"
  shows "response_data (axiosRetry tr req this w) =
           (Inr (resp_data response),
            w\<lparr>calls := calls w @ replicate k req,
              sleeps := sleeps w @ map (\<lambda>i. retryDelay this * 2 ^ i) [0..<k - 1]\<rparr>)
         \<and> (req = get_request u config \<longrightarrow>
              get this tr u config w =
                (Inr (resp_data response),
                 w\<lparr>calls := calls w @ replicate k req,
                   sleeps := sleeps w @ map (\<lambda>i. retryDelay this * 2 ^ i) [0..<k - 1]\<rparr>))"
proof -
  from assms(1) obtain j where k: "k = Suc j" by (cases k) auto
  have "int j \<le> retries this" using assms(2) k by simp
  from axiosRetry_resolves_after[OF this, of tr w req response] assms(3,4) k
  have "axiosRetry tr req this w =
           (Inr response,
            w\<lparr>calls := calls w @ replicate k req,
              sleeps := sleeps w @ map (\<lambda>i. retryDelay this * 2 ^ i) [0..<k - 1]\<rparr>)"
    by simp
  then show ?thesis by (auto simp add: response_data_def get_def)
qed

theorem request_resolves_on_kth_attempt_witness:
  "(1::nat) \<le> 3 \<and> int 3 \<le> retries api + 1
   \<and> map (\<lambda>i. rejects_then_resolves 2 network_error ok_200 (length (calls world0) + i)
               (get_request ''/api/summarize'' None)) [0, 1] =
       [Inl network_error, Inl network_error]
   \<and> retryCondition api = Some default_retryCondition
   \<and> default_retryCondition network_error = Inr True
   \<and> rejects_then_resolves 2 network_error ok_200 (length (calls world0) + (3 - 1))
        (get_request ''/api/summarize'' None) = Inr ok_200
   \<and> get api (rejects_then_resolves 2 network_error ok_200) ''/api/summarize'' None world0 =
       (Inr (JObj [(''status'', JStr ''ok'')]),
        \<lparr>calls = replicate 3 (get_request ''/api/summarize'' None), sleeps = [1000, 2000]\<rparr>)"
proof -
  let ?tr = "rejects_then_resolves 2 network_error ok_200"
  let ?req = "get_request ''/api/summarize'' None"
  have h1: "(1::nat) \<le> 3" by simp
  have h2: "int 3 \<le> retries api + 1"
    by (simp add: api_is_default DEFAULT_RETRY_CONFIG_def)
  have h3: "\<forall>i<3 - 1. \<exists>e cond. ?tr (length (calls world0) + i) ?req = Inl e
        \<and> retryCondition api = Some cond \<and> cond e = Inr True"
    by (simp add: api_is_default DEFAULT_RETRY_CONFIG_def rejects_then_resolves_def
          network_error_def world0_def)
  have h4: "?tr (length (calls world0) + (3 - 1)) ?req = Inr ok_200"
    by (simp add: rejects_then_resolves_def world0_def)
  have "map (\<lambda>i. retryDelay api * 2 ^ i) [0..<3 - 1] = [1000, 2000]"
    by (simp add: api_is_default DEFAULT_RETRY_CONFIG_def upt_rec)
  with request_resolves_on_kth_attempt
         [where k = 3 and this = api and tr = ?tr and w = world0 and req = ?req
            and response = ok_200 and u = "''/api/summarize''" and config = None]
       h1 h2 h3 h4
  have run: "get api ?tr ''/api/summarize'' None world0 =
       (Inr (JObj [(''status'', JStr ''ok'')]), \<lparr>calls = replicate 3 ?req, sleeps = [1000, 2000]\<rparr>)"
    by (simp add: world0_def ok_200_def)
  have e1: "map (\<lambda>i. ?tr (length (calls world0) + i) ?req) [0, 1] =
       [Inl network_error, Inl network_error]"
    by (simp add: rejects_then_resolves_def world0_def)
  have e2: "retryCondition api = Some default_retryCondition"
    by (simp add: api_is_default DEFAULT_RETRY_CONFIG_def)
  have e3: "default_retryCondition network_error = Inr True"
    by (simp add: network_error_def)
  from h2 h4 run e1 e2 e3 show ?thesis
    by simp
qed

section \<open>Error normalisation\<close>

text \<open>
  C4, as amended. For every axios failure that carries a response,
  \<open>handleApiError\<close> yields: as message the \<open>message\<close> field of the response body
  when that field is truthy, otherwise the message of the axios error itself
  when it has one that is not empty, otherwise \<open>Server error occurred\<close>; as status the HTTP
  status of the response; as code the code of the axios error, if any; as
  details the whole response body.
\<close>

theorem handleApiError_with_response:
  assumes "ae_response e = Some r"
  shows "handleApiError (AxiosErr e) =
           \<lparr>message = (if truthy (message_of (resp_data r)) then message_of (resp_data r)
                       else (case ae_message e of
                               None \<Rightarrow> JStr ''Server error occurred''
                             | Some m \<Rightarrow>
                                 if m \<noteq> [] then JStr m else JStr ''Server error occurred'')),
            status = Some (resp_status r),
            code = ae_code e,
            details = resp_data r\<rparr>"
  using assms by (simp add: handleApiError_def response_message Let_def)

text \<open>The specification's scenario: a 400 response with body \<open>{message: "Bad request"}\<close>.\<close>

theorem handleApiError_with_response_witness:
  "handleApiError bad_request_400 =
     \<lparr>message = JStr ''Bad request'', status = Some 400, code = Some ''ERR_BAD_REQUEST'',
      details = JObj [(''message'', JStr ''Bad request'')]\<rparr>"
  using handleApiError_with_response
          [of "\<lparr>ae_isError = True, ae_message = Some ''Request failed with status code 400'',
               ae_code = Some ''ERR_BAD_REQUEST'',
               ae_response = Some \<lparr>resp_status = 400,
                                    resp_data = JObj [(''message'', JStr ''Bad request'')]\<rparr>,
               ae_request = True\<rparr>"
              "\<lparr>resp_status = 400, resp_data = JObj [(''message'', JStr ''Bad request'')]\<rparr>"]
  by (simp add: bad_request_400_def)

text \<open>
  C4 as stated fails: for a 500 response whose body has no \<open>message\<close> field, the
  message is the one of the axios error, not \<open>Server error occurred\<close>.
\<close>

theorem body_without_message_keeps_transport_message:
  "message_of (JObj []) = JUndefined
   \<and> message (handleApiError server_error_500) = JStr ''Request failed with status code 500''
   \<and> message (handleApiError server_error_500) \<noteq> JStr ''Server error occurred''"
  by (simp add: handleApiError_def server_error_500_def js_or_def error_message_def)

text \<open>
  C5 does not hold of the code as it stands. The claim: for every value given
  to \<open>handleApiError\<close> the message is present, a status is present only when a
  response was received, a code only when the transport supplied one, and an
  axios error with a request but no response gets the network message and no
  status. The last branch of \<open>handleApiError\<close> returns \<open>error.message\<close> as it is:
  for \<open>new AxiosError()\<close>, which has no message, no request and no response, the
  normalised error has \<open>message\<close> \<open>undefined\<close>, and nothing else.
\<close>

theorem messageless_axios_error_has_no_message:
  "handleApiError messageless_AxiosError =
     \<lparr>message = JUndefined, status = None, code = None, details = JUndefined\<rparr>"
  by (simp add: handleApiError_def messageless_AxiosError_def error_message_def)

text \<open>
  What does hold for every value: the message is present unless the value is an
  axios error that is an instance of \<open>Error\<close> with neither response nor request
  and with no message; a status comes only from a received response; a code
  comes only from the code of an axios error; and an axios error with a request
  but no response gets the network message and no status.
\<close>

lemma handleApiError_fields:
  "((\<forall>e. t = AxiosErr e \<longrightarrow>
        ae_response e \<noteq> None \<or> ae_request e \<or> \<not> ae_isError e \<or> ae_message e \<noteq> None)
      \<longrightarrow> message (handleApiError t) \<noteq> JUndefined \<and> message (handleApiError t) \<noteq> JNull)
   \<and> (\<forall>s. status (handleApiError t) = Some s \<longrightarrow>
          (\<exists>e r. t = AxiosErr e \<and> ae_response e = Some r \<and> resp_status r = s))
   \<and> (\<forall>c. code (handleApiError t) = Some c \<longrightarrow> (\<exists>e. t = AxiosErr e \<and> ae_code e = Some c))
   \<and> (\<forall>e. t = AxiosErr e \<and> ae_response e = None \<and> ae_request e \<longrightarrow>
          message (handleApiError t) = JStr ''Network error - please check your connection''
          \<and> status (handleApiError t) = None)"
proof (cases t)
  case (AxiosErr e)
  show ?thesis
  proof (cases "ae_response e")
    case None
    with AxiosErr show ?thesis
      by (auto simp add: handleApiError_def error_message_def)
  next
    case (Some r)
    let ?m = "js_or (message_of (resp_data r))
                (js_or (error_message e) (JStr ''Server error occurred''))"
    have "truthy ?m" by (simp add: js_or_def)
    then have "?m \<noteq> JUndefined \<and> ?m \<noteq> JNull" by (rule truthy_present)
    with AxiosErr Some show ?thesis by (simp add: handleApiError_def Let_def)
  qed
next
  case (PlainError m)
  then show ?thesis by (simp add: handleApiError_def)
next
  case (NonError v)
  then show ?thesis by (simp add: handleApiError_def)
qed

section \<open>The health probe\<close>

text \<open>
  C6. \<open>checkApiHealth\<close> never raises: its result is a boolean. The boolean is
  \<open>true\<close> exactly when \<open>api.get('/health')\<close> does not raise. Every request it
  dispatches is a \<open>GET\<close> of \<open>/health\<close>, between one and four of them. It answers
  \<open>false\<close> whenever the transport rejects every invocation (as with a total
  network failure, or a 4xx response each time), and after a single attempt
  when the first failure is not retried (as a 4xx response is not).
\<close>

theorem checkApiHealth_reports_only_success:
  "(\<exists>b. fst (checkApiHealth tr w) = Inr b)
   \<and> (fst (checkApiHealth tr w) = Inr True
        \<longleftrightarrow> (\<exists>body. fst (get api tr ''/health'' None w) = Inr body))
   \<and> (\<exists>n. 1 \<le> n \<and> n \<le> 4
          \<and> calls (snd (checkApiHealth tr w)) =
              calls w @ replicate n \<lparr>method = Some ''GET'', url = Some ''/health'', data = None,
                                      headers = None, timeout = None\<rparr>)
   \<and> ((\<forall>i. \<exists>e. tr i (get_request ''/health'' None) = Inl e)
        \<longrightarrow> fst (checkApiHealth tr w) = Inr False)
   \<and> ((\<exists>e. tr (length (calls w)) (get_request ''/health'' None) = Inl e
            \<and> default_retryCondition e = Inr False)
        \<longrightarrow> checkApiHealth tr w =
              (Inr False, w\<lparr>calls := calls w @ [get_request ''/health'' None]\<rparr>))"
proof (intro conjI impI)
  let ?g = "get api tr ''/health'' None w"
  have health: "checkApiHealth tr w =
      (case fst ?g of Inr body \<Rightarrow> (Inr True, snd ?g) | Inl error \<Rightarrow> (Inr False, snd ?g))"
    by (cases ?g) (auto simp: checkApiHealth_def split: sum.splits)
  show "\<exists>b. fst (checkApiHealth tr w) = Inr b"
    unfolding health by (cases "fst ?g") auto
  show "fst (checkApiHealth tr w) = Inr True \<longleftrightarrow> (\<exists>body. fst ?g = Inr body)"
    unfolding health by (cases "fst ?g") auto
  have "0 \<le> retries api" by (simp add: api_is_default DEFAULT_RETRY_CONFIG_def)
  from axiosRetry_calls[OF this, of tr "get_request ''/health'' None" w]
  obtain n where n: "1 \<le> n" "int n \<le> retries api + 1"
    "calls (snd (axiosRetry tr (get_request ''/health'' None) api w)) =
       calls w @ replicate n (get_request ''/health'' None)"
    by blast
  have "snd (checkApiHealth tr w) = snd ?g"
    unfolding health by (cases "fst ?g") auto
  with n show "\<exists>n. 1 \<le> n \<and> n \<le> 4
          \<and> calls (snd (checkApiHealth tr w)) =
              calls w @ replicate n \<lparr>method = Some ''GET'', url = Some ''/health'', data = None,
                                      headers = None, timeout = None\<rparr>"
    by (intro exI[of _ n])
       (simp add: get_def snd_response_data health_request api_is_default DEFAULT_RETRY_CONFIG_def)
  {
    assume "\<forall>i. \<exists>e. tr i (get_request ''/health'' None) = Inl e"
    from axiosRetry_rejected_throughout
           [where tr = tr and config = "get_request ''/health'' None" and rc = api and w = w] this
    obtain e where "fst (axiosRetry tr (get_request ''/health'' None) api w) = Inl e"
      by blast
    then have "fst ?g = Inl e" by (simp add: get_def fst_response_data)
    then show "fst (checkApiHealth tr w) = Inr False"
      unfolding health by simp
  }
  {
    assume "\<exists>e. tr (length (calls w)) (get_request ''/health'' None) = Inl e
            \<and> default_retryCondition e = Inr False"
    then obtain e where e: "tr (length (calls w)) (get_request ''/health'' None) = Inl e"
      "default_retryCondition e = Inr False"
      by blast
    have "axiosRetry tr (get_request ''/health'' None) api w =
        (Inl e, w\<lparr>calls := calls w @ [get_request ''/health'' None]\<rparr>)"
      using e by (intro axiosRetry_gives_up) (auto simp: api_is_default DEFAULT_RETRY_CONFIG_def)
    then show "checkApiHealth tr w =
              (Inr False, w\<lparr>calls := calls w @ [get_request ''/health'' None]\<rparr>)"
      by (simp add: checkApiHealth_def get_def response_data_def)
  }
qed

theorem checkApiHealth_reports_only_success_witness:
  "fst (checkApiHealth (always_rejects bad_request_400) world0) = Inr False
   \<and> default_retryCondition bad_request_400 = Inr False
   \<and> checkApiHealth (always_rejects bad_request_400) world0 =
       (Inr False, \<lparr>calls = [get_request ''/health'' None], sleeps = []\<rparr>)
   \<and> fst (checkApiHealth (always_rejects network_error) world0) = Inr False"
proof -
  have r: "default_retryCondition bad_request_400 = Inr False"
    by (simp add: bad_request_400_def)
  show ?thesis
    using checkApiHealth_reports_only_success[of "always_rejects bad_request_400" world0]
      checkApiHealth_reports_only_success[of "always_rejects network_error" world0] r
    by (simp add: always_rejects_def world0_def)
qed

text \<open>
  C9. The probe goes through the default client: when the first four
  invocations of the transport all fail with failures that the default retry
  condition accepts (a total network failure, for one), \<open>checkApiHealth\<close>
  invokes the transport exactly \<open>1 + retries = 4\<close> times, sleeps 1000, 2000 and
  4000 in between, and then answers \<open>false\<close>.
\<close>

theorem checkApiHealth_retries_before_false:
  assumes "\<forall>i\<le>3. tr (length (calls w) + i) (get_request ''/health'' None) = Inl (f i)
             \<and> default_retryCondition (f i) = Inr True"
  shows "checkApiHealth tr w =
           (Inr False,
            w\<lparr>calls := calls w @ replicate 4 (get_request ''/health'' None),
              sleeps := sleeps w @ [1000, 2000, 4000]\<rparr>)
         \<and> 1 + retries api = 4"
proof -
  have c: "retries api = 3" "retryDelay api = 1000" "retryCondition api = Some default_retryCondition"
    by (simp_all add: api_is_default DEFAULT_RETRY_CONFIG_def)
  have "axiosRetry tr (get_request ''/health'' None) api w =
           (Inl (f (nat (retries api))),
            w\<lparr>calls := calls w @ replicate (Suc (nat (retries api))) (get_request ''/health'' None),
              sleeps := sleeps w @ map (\<lambda>i. retryDelay api * 2 ^ i) [0..<nat (retries api)]\<rparr>)"
    using assms c by (intro axiosRetry_exhausts) auto
  then have "axiosRetry tr (get_request ''/health'' None) api w =
           (Inl (f 3),
            w\<lparr>calls := calls w @ replicate 4 (get_request ''/health'' None),
              sleeps := sleeps w @ [1000, 2000, 4000]\<rparr>)"
    using c default_delays by (simp add: numeral_eq_Suc)
  then show ?thesis
    using c by (simp add: checkApiHealth_def get_def response_data_def)
qed

theorem checkApiHealth_retries_before_false_witness:
  "map (\<lambda>i. always_rejects network_error (length (calls world0) + i) (get_request ''/health'' None))
       [0, 1, 2, 3] = [Inl network_error, Inl network_error, Inl network_error, Inl network_error]
   \<and> default_retryCondition network_error = Inr True
   \<and> checkApiHealth (always_rejects network_error) world0 =
       (Inr False, \<lparr>calls = replicate 4 (get_request ''/health'' None), sleeps = [1000, 2000, 4000]\<rparr>)"
proof -
  have h: "\<forall>i\<le>3. always_rejects network_error (length (calls world0) + i) (get_request ''/health'' None)
               = Inl ((\<lambda>i. network_error) i)
             \<and> default_retryCondition ((\<lambda>i. network_error) i) = Inr True"
    by (simp add: always_rejects_def network_error_def)
  from checkApiHealth_retries_before_false
         [where tr = "always_rejects network_error" and w = world0 and f = "\<lambda>i. network_error"] h
  have "checkApiHealth (always_rejects network_error) world0 =
       (Inr False, \<lparr>calls = replicate 4 (get_request ''/health'' None), sleeps = [1000, 2000, 4000]\<rparr>)"
    by (simp add: world0_def)
  then show ?thesis
    by (simp add: always_rejects_def network_error_def)
qed

section \<open>Upload\<close>



section \<open>The service layer\<close>

text \<open>
  C10. When the client operation under one of the five service wrappers
  (\<open>summarizeText\<close>, \<open>answerQuestion\<close>, \<open>answerQuestionWithFile\<close>, \<open>generatePath\<close>,
  \<open>checkHealth\<close>) raises, the wrapper raises a plain \<open>Error\<close> made from the message
  of the normalised error alone. The status, the code and the details of the
  normalised error are gone: normalising the surfaced error again gives the
  message with no status, no code and no details.
\<close>

theorem services_surface_only_the_message:
  assumes "(surfaced, underlying) \<in>
             {(summarizeText conv tr request w,
               post api tr ''/api/summarize'' (Some (JsonBody request)) None w),
              (answerQuestion conv tr request w,
               post api tr ''/api/qa'' (Some (JsonBody request)) None w),
              (answerQuestionWithFile conv tr question file w,
               upload api tr ''/api/qa''
                 [(''question'', FormText question), (''file'', FormFile file)] None w),
              (generatePath conv tr request w,
               post api tr ''/api/learning-path'' (Some (JsonBody request)) None w),
              (checkHealth conv tr w, get api tr ''/health'' None w)}"
    and "fst underlying = Inl error"
  shows "fst surfaced = Inl (new_Error conv (message (handleApiError error)))
         \<and> (\<forall>s. message (handleApiError error) = JStr s \<longrightarrow> fst surfaced = Inl (PlainError s))
         \<and> (\<exists>m. fst surfaced = Inl (PlainError m)
                \<and> handleApiError (PlainError m) =
                    \<lparr>message = JStr m, status = None, code = None, details = JUndefined\<rparr>)
         \<and> snd surfaced = snd underlying"
proof -
  from assms(1) have s: "surfaced = rethrow conv underlying"
    by (auto simp: summarizeText_def answerQuestion_def answerQuestionWithFile_def
          generatePath_def checkHealth_def Let_def)
  from assms(2) have "rethrow conv underlying =
      (Inl (new_Error conv (message (handleApiError error))), snd underlying)"
    by (cases underlying) (simp add: rethrow_def Let_def)
  with s have r: "surfaced = (Inl (new_Error conv (message (handleApiError error))), snd underlying)"
    by simp
  obtain m where m: "new_Error conv (message (handleApiError error)) = PlainError m"
    by (simp add: new_Error_def)
  show ?thesis
    using r m by (auto simp: new_Error_def handleApiError_def)
qed

theorem services_surface_only_the_message_witness:
  "fst (post api (always_rejects bad_request_400) ''/api/summarize'' (Some (JsonBody JNull)) None world0)
     = Inl bad_request_400
   \<and> handleApiError bad_request_400 =
       \<lparr>message = JStr ''Bad request'', status = Some 400, code = Some ''ERR_BAD_REQUEST'',
        details = JObj [(''message'', JStr ''Bad request'')]\<rparr>
   \<and> fst (summarizeText (\<lambda>v. []) (always_rejects bad_request_400) JNull world0) =
       Inl (PlainError ''Bad request'')
   \<and> handleApiError (PlainError ''Bad request'') =
       \<lparr>message = JStr ''Bad request'', status = None, code = None, details = JUndefined\<rparr>"
proof -
  let ?tr = "always_rejects bad_request_400"
  let ?u = "post api ?tr ''/api/summarize'' (Some (JsonBody JNull)) None world0"
  let ?s = "summarizeText (\<lambda>v. []) ?tr JNull world0"
  have "axiosRetry ?tr (post_request ''/api/summarize'' (Some (JsonBody JNull)) None) api world0 =
      (Inl bad_request_400,
       world0\<lparr>calls := calls world0 @ [post_request ''/api/summarize'' (Some (JsonBody JNull)) None]\<rparr>)"
    by (intro axiosRetry_gives_up)
       (simp_all add: api_is_default DEFAULT_RETRY_CONFIG_def always_rejects_def bad_request_400_def)
  then have u: "fst ?u = Inl bad_request_400"
    by (simp add: post_def response_data_def)
  have n: "handleApiError bad_request_400 =
       \<lparr>message = JStr ''Bad request'', status = Some 400, code = Some ''ERR_BAD_REQUEST'',
        details = JObj [(''message'', JStr ''Bad request'')]\<rparr>"
    by (simp add: handleApiError_def bad_request_400_def js_or_def)
  have "(?s, ?u) \<in>
             {(summarizeText (\<lambda>v. []) ?tr JNull world0,
               post api ?tr ''/api/summarize'' (Some (JsonBody JNull)) None world0),
              (answerQuestion (\<lambda>v. []) ?tr JNull world0,
               post api ?tr ''/api/qa'' (Some (JsonBody JNull)) None world0),
              (answerQuestionWithFile (\<lambda>v. []) ?tr [] [] world0,
               upload api ?tr ''/api/qa''
                 [(''question'', FormText []), (''file'', FormFile [])] None world0),
              (generatePath (\<lambda>v. []) ?tr JNull world0,
               post api ?tr ''/api/learning-path'' (Some (JsonBody JNull)) None world0),
              (checkHealth (\<lambda>v. []) ?tr world0, get api ?tr ''/health'' None world0)}"
    by simp
  from services_surface_only_the_message[OF this u]
  have "fst ?s = Inl (new_Error (\<lambda>v. []) (message (handleApiError bad_request_400)))"
    by simp
  with n have "fst ?s = Inl (PlainError ''Bad request'')"
    by (simp add: new_Error_def)
  moreover have "handleApiError (PlainError ''Bad request'') =
       \<lparr>message = JStr ''Bad request'', status = None, code = None, details = JUndefined\<rparr>"
    by (simp add: handleApiError_def)
  ultimately show ?thesis using u n by simp
qed

end
